theory Spec2Isabelle
  imports Main "HOL-Library.Sublist"
begin

section \<open>JavaScript values used by the client\<close>

text \<open>
  Strings are \<^typ>\<open>string\<close>; an optional value (\<^verbatim>\<open>undefined\<close> or a string) is a
  \<^typ>\<open>string option\<close>. The letter-case conversions are modelled on ASCII text: the
  characters \<^verbatim>\<open>a\<close> .. \<^verbatim>\<open>z\<close> and \<^verbatim>\<open>A\<close> .. \<^verbatim>\<open>Z\<close> are converted, every other character is
  left as it is. JavaScript converts every cased letter (an e with an acute accent, the
  sharp s); on text with such letters the model's converted string differs from the
  program's. A comparison of the converted string with \<^verbatim>\<open>EU\<close> is not affected: only the
  letters \<^verbatim>\<open>e\<close> and \<^verbatim>\<open>u\<close> have \<^verbatim>\<open>E\<close> and \<^verbatim>\<open>U\<close> as their upper-case forms.
\<close>

definition lower_letters :: string where
  "lower_letters = ''abcdefghijklmnopqrstuvwxyz''"

definition upper_letters :: string where
  "upper_letters = ''ABCDEFGHIJKLMNOPQRSTUVWXYZ''"

definition upper_char :: "char \<Rightarrow> char" where
  "upper_char c = (case map_of (zip lower_letters upper_letters) c of Some d \<Rightarrow> d | None \<Rightarrow> c)"

definition lower_char :: "char \<Rightarrow> char" where
  "lower_char c = (case map_of (zip upper_letters lower_letters) c of Some d \<Rightarrow> d | None \<Rightarrow> c)"

definition toUpperCase :: "string \<Rightarrow> string" where
  "toUpperCase s = map upper_char s"

definition toLowerCase :: "string \<Rightarrow> string" where
  "toLowerCase s = map lower_char s"

text \<open>\<^verbatim>\<open>s.includes(t)\<close>: \<open>t\<close> occurs in \<open>s\<close> as a contiguous substring.\<close>

definition str_includes :: "string \<Rightarrow> string \<Rightarrow> bool" where
  "str_includes s t = sublist t s"

text \<open>Truthiness of an optional string: \<^verbatim>\<open>undefined\<close> and the empty string are falsy.\<close>

fun truthy :: "string option \<Rightarrow> bool" where
  "truthy None = False"
| "truthy (Some s) = (s \<noteq> [])"

text \<open>\<^verbatim>\<open>a || b\<close> on optional strings, and \<^verbatim>\<open>a || 'literal'\<close> with a string literal.\<close>

definition or_else :: "string option \<Rightarrow> string option \<Rightarrow> string option" where
  "or_else a b = (if truthy a then a else b)"

fun or_str :: "string option \<Rightarrow> string \<Rightarrow> string" where
  "or_str None d = d"
| "or_str (Some s) d = (if s = [] then d else s)"

text \<open>Decimal rendering of a number inside a template literal.\<close>

definition digit_char :: "nat \<Rightarrow> char" where
  "digit_char d = ''0123456789'' ! d"

fun show_nat :: "nat \<Rightarrow> string" where
  "show_nat n = (if n < 10 then [digit_char n] else show_nat (n div 10) @ [digit_char (n mod 10)])"

declare show_nat.simps [simp del]

text \<open>A thrown \<^verbatim>\<open>Error\<close>, with its message.\<close>

datatype error = Error string

fun error_message :: "error \<Rightarrow> string" where
  "error_message (Error msg) = msg"

section \<open>The process environment and region resolution\<close>

record environment =
  NEW_RELIC_API_KEY :: "string option"
  NEW_RELIC_ACCOUNT_ID :: "string option"
  NEW_RELIC_REGION :: "string option"

text \<open>\<^verbatim>\<open>getNerdGraphUrl(region)\<close>: a strict comparison with \<^verbatim>\<open>'EU'\<close>.\<close>

definition getNerdGraphUrl :: "string \<Rightarrow> string" where
  "getNerdGraphUrl region =
     (if region = ''EU'' then ''https://api.eu.newrelic.com/graphql''
      else ''https://api.newrelic.com/graphql'')"

text \<open>
  The module constant
  \<^verbatim>\<open>NERDGRAPH_URL = getNerdGraphUrl(process.env.NEW_RELIC_REGION?.toUpperCase() || 'US')\<close>
  is evaluated once, when the module is loaded; \<open>load_module\<close> takes the environment of
  that moment.
\<close>

record loaded_module =
  NERDGRAPH_URL :: string

definition load_module :: "environment \<Rightarrow> loaded_module" where
  "load_module env =
     \<lparr> NERDGRAPH_URL =
         getNerdGraphUrl (or_str (map_option toUpperCase (NEW_RELIC_REGION env)) ''US'') \<rparr>"

text \<open>The test helper \<^verbatim>\<open>getRegionSubdomain()\<close>.\<close>

definition getRegionSubdomain :: "environment \<Rightarrow> string" where
  "getRegionSubdomain env =
     (if map_option toUpperCase (NEW_RELIC_REGION env) = Some ''EU'' then ''.eu'' else [])"

text \<open>The four spellings of the region token that differ from \<^verbatim>\<open>EU\<close> in letter case only.\<close>

definition is_eu_token :: "string option \<Rightarrow> bool" where
  "is_eu_token r = (r = Some ''EU'' \<or> r = Some ''Eu'' \<or> r = Some ''eU'' \<or> r = Some ''eu'')"

section \<open>The NerdGraph client\<close>

record client =
  apiKey :: string
  defaultAccountId :: "string option"

text \<open>
  The constructor \<^verbatim>\<open>constructor(apiKey?, defaultAccountId?)\<close>; it reads the environment
  at the moment of construction.
\<close>

definition new_NewRelicClient :: "environment \<Rightarrow> string option \<Rightarrow> string option \<Rightarrow> client" where
  "new_NewRelicClient env apiKey' defaultAccountId' =
     \<lparr> apiKey = or_str (or_else apiKey' (NEW_RELIC_API_KEY env)) [],
       defaultAccountId = or_else defaultAccountId' (NEW_RELIC_ACCOUNT_ID env) \<rparr>"

text \<open>
  A \<^verbatim>\<open>new NewRelicClient(...)\<close> expression with any number of arguments: the parameters are
  bound by position, a missing argument is \<^verbatim>\<open>undefined\<close>, and arguments beyond the
  declared parameters are not bound to anything.
\<close>

definition argument :: "string option list \<Rightarrow> nat \<Rightarrow> string option" where
  "argument args i = (if i < length args then args ! i else None)"

definition construct_NewRelicClient :: "environment \<Rightarrow> string option list \<Rightarrow> client" where
  "construct_NewRelicClient env args = new_NewRelicClient env (argument args 0) (argument args 1)"

subsection \<open>Requests and responses\<close>

text \<open>
  The request handed to \<^verbatim>\<open>fetch\<close>: URL, method, the two headers, and the two members of
  the JSON body.
\<close>

record 'v request =
  req_url :: string
  req_method :: string
  req_content_type :: string
  req_api_key :: string
  req_query :: string
  req_variables :: "'v option"

record graphql_error =
  message :: string

record 'd graphql_response =
  data :: "'d option"
  errors :: "graphql_error list option"

text \<open>
  An HTTP response: status, reason phrase, and what \<^verbatim>\<open>response.json()\<close> gives (it
  rejects when the body is not JSON). \<^verbatim>\<open>response.ok\<close> is the Fetch standard's: the status
  is in the range 200 to 299.
\<close>

record 'd http_response =
  status :: nat
  statusText :: string
  json :: "error + 'd graphql_response"

definition response_ok :: "'d http_response \<Rightarrow> bool" where
  "response_ok r = (200 \<le> status r \<and> status r \<le> 299)"

type_synonym ('v, 'd) fetch = "'v request \<Rightarrow> error + 'd http_response"

subsection \<open>\<^verbatim>\<open>executeNerdGraphQuery\<close>\<close>

definition api_key_missing :: "client \<Rightarrow> bool" where
  "api_key_missing c = (apiKey c = [] \<or> apiKey c = [] \<or> length (apiKey c) = 0)"

definition nerdgraph_request :: "loaded_module \<Rightarrow> client \<Rightarrow> string \<Rightarrow> 'v option \<Rightarrow> 'v request" where
  "nerdgraph_request m c query variables =
     \<lparr> req_url = NERDGRAPH_URL m,
       req_method = ''POST'',
       req_content_type = ''application/json'',
       req_api_key = apiKey c,
       req_query = query,
       req_variables = variables \<rparr>"

text \<open>
  The result is the list of requests handed to \<^verbatim>\<open>fetch\<close> during the call, and the
  outcome: the error thrown, or the envelope returned.
\<close>

definition executeNerdGraphQuery ::
  "loaded_module \<Rightarrow> ('v, 'd) fetch \<Rightarrow> client \<Rightarrow> string \<Rightarrow> 'v option
     \<Rightarrow> 'v request list \<times> (error + 'd graphql_response)" where
  "executeNerdGraphQuery m fetch c query variables =
     (if api_key_missing c
      then ([], Inl (Error ''NEW_RELIC_API_KEY environment variable is not set''))
      else
        let req = nerdgraph_request m c query variables in
        (case fetch req of
           Inl e \<Rightarrow> ([req], Inl e)
         | Inr response \<Rightarrow>
             if \<not> response_ok response then
               (if status response = 401
                then ([req], Inl (Error ''Unauthorized: Invalid API key''))
                else ([req], Inl (Error (''NerdGraph API error: '' @ show_nat (status response)
                                          @ '' '' @ statusText response))))
             else ([req], json response)))"

subsection \<open>\<^verbatim>\<open>runNrqlQuery\<close>\<close>

text \<open>The part of the response that \<^verbatim>\<open>runNrqlQuery\<close> reads; \<open>'r\<close> is a result row.\<close>

record time_window =
  tw_begin :: int
  tw_end :: int

record nrql_metadata =
  eventTypes :: "string list option"
  timeWindow :: "time_window option"
  facets :: "string list option"

record 'r nrql_node =
  node_results :: "'r list option"
  node_metadata :: "nrql_metadata option"

record 'r account_node =
  nrql :: "'r nrql_node option"

record 'r actor_node =
  account :: "'r account_node option"

record 'r nrql_data =
  actor :: "'r actor_node option"

text \<open>The returned \<^verbatim>\<open>NrqlQueryResult\<close>: the upstream metadata with \<^verbatim>\<open>timeSeries\<close> added.\<close>

record result_metadata = nrql_metadata +
  timeSeries :: bool

record 'r NrqlQueryResult =
  results :: "'r list"
  metadata :: result_metadata

text \<open>\<^verbatim>\<open>/^\d+$/.test(s)\<close>\<close>

definition all_digits :: "string \<Rightarrow> bool" where
  "all_digits s = (s \<noteq> [] \<and> list_all (\<lambda>c. c \<in> set ''0123456789'') s)"

text \<open>\<^verbatim>\<open>s.replace(/"/g, '\\"')\<close>: a backslash is put before every double quote.\<close>

definition escape_quotes :: "string \<Rightarrow> string" where
  "escape_quotes s = concat (map (\<lambda>c. if c = CHR 0x22 then [CHR 0x5C, CHR 0x22] else [c]) s)"

definition join_lines :: "string list \<Rightarrow> string" where
  "join_lines ls = concat (case ls of [] \<Rightarrow> [] | l # rest \<Rightarrow> l # map (\<lambda>x. CHR 0x0A # x) rest)"

definition nrql_query_document :: "string \<Rightarrow> string \<Rightarrow> string" where
  "nrql_query_document accountId nrql_text = join_lines
     [ ''{'',
       ''      actor {'',
       ''        account(id: '' @ accountId @ '') {'',
       ''          nrql(query: '' @ [CHR 0x22] @ escape_quotes nrql_text @ [CHR 0x22] @ '') {'',
       ''            results'',
       ''            metadata {'',
       ''              eventTypes'',
       ''              timeWindow {'',
       ''                begin'',
       ''                end'',
       ''              }'',
       ''              facets'',
       ''            }'',
       ''          }'',
       ''        }'',
       ''      }'',
       ''    }'' ]"

text \<open>\<^verbatim>\<open>response.errors[0]?.message || 'NRQL query failed'\<close>\<close>

definition first_error_message :: "graphql_error list \<Rightarrow> string" where
  "first_error_message errs =
     or_str (case errs of [] \<Rightarrow> None | e # _ \<Rightarrow> Some (message e)) ''NRQL query failed''"

text \<open>\<^verbatim>\<open>response.data?.actor?.account?.nrql\<close>\<close>

definition nrql_result_of :: "'r nrql_data graphql_response \<Rightarrow> 'r nrql_node option" where
  "nrql_result_of response =
     Option.bind (data response) (\<lambda>d. Option.bind (actor d) (\<lambda>a. Option.bind (account a) nrql))"

definition spread_metadata :: "nrql_metadata option \<Rightarrow> bool \<Rightarrow> result_metadata" where
  "spread_metadata md ts =
     (case md of
        None \<Rightarrow> \<lparr> eventTypes = None, timeWindow = None, facets = None, timeSeries = ts \<rparr>
      | Some x \<Rightarrow> nrql_metadata.extend x \<lparr> timeSeries = ts \<rparr>)"

text \<open>The body of the \<^verbatim>\<open>try\<close> block after the response has arrived.\<close>

definition nrql_try_body :: "string \<Rightarrow> 'r nrql_data graphql_response \<Rightarrow> error + 'r NrqlQueryResult" where
  "nrql_try_body nrql_text response =
     (case errors response of
        Some errs \<Rightarrow> Inl (Error (first_error_message errs))
      | None \<Rightarrow>
          (case nrql_result_of response of
             None \<Rightarrow> Inl (Error ''No results returned from NRQL query'')
           | Some nrqlResult \<Rightarrow>
               let isTimeSeries = str_includes (toLowerCase nrql_text) ''timeseries'' in
               Inr \<lparr> results = (case node_results nrqlResult of Some rs \<Rightarrow> rs | None \<Rightarrow> []),
                     metadata = spread_metadata (node_metadata nrqlResult) isTimeSeries \<rparr>))"

text \<open>The \<^verbatim>\<open>catch\<close> clause: what is thrown in place of the caught error.\<close>

definition nrql_catch :: "error \<Rightarrow> error" where
  "nrql_catch e =
     (if str_includes (error_message e) ''Syntax error''
      then Error (''NRQL Syntax error: '' @ error_message e)
      else e)"

definition runNrqlQuery ::
  "loaded_module \<Rightarrow> ('v, 'r nrql_data) fetch \<Rightarrow> client \<Rightarrow> string \<Rightarrow> string
     \<Rightarrow> 'v request list \<times> (error + 'r NrqlQueryResult)" where
  "runNrqlQuery m fetch c nrql_text accountId =
     (if nrql_text = [] then ([], Inl (Error ''Invalid or empty NRQL query provided''))
      else if accountId = [] \<or> \<not> all_digits accountId
        then ([], Inl (Error ''Invalid account ID format''))
      else
        let query = nrql_query_document accountId nrql_text;
            (sent, outcome) = executeNerdGraphQuery m fetch c query None;
            tried = (case outcome of Inl e \<Rightarrow> Inl e | Inr response \<Rightarrow> nrql_try_body nrql_text response)
        in (sent, case tried of Inl e \<Rightarrow> Inl (nrql_catch e) | Inr r \<Rightarrow> Inr r))"

subsection \<open>The HTTP server's \<^verbatim>\<open>createSessionFromHeaders\<close>\<close>

record request_headers =
  x_new_relic_api_key :: "string option"
  x_new_relic_account_id :: "string option"
  x_new_relic_region :: "string option"

record session_context =
  ctx_apiKey :: string
  ctx_accountId :: "string option"
  ctx_region :: string
  ctx_client :: client

definition createSessionFromHeaders :: "environment \<Rightarrow> request_headers \<Rightarrow> session_context option" where
  "createSessionFromHeaders env h =
     (let region = toUpperCase (or_str (x_new_relic_region h) ''US'') in
      case x_new_relic_api_key h of
        None \<Rightarrow> None
      | Some k \<Rightarrow>
          if k = [] then None
          else Some \<lparr> ctx_apiKey = k,
                      ctx_accountId = x_new_relic_account_id h,
                      ctx_region = region,
                      ctx_client = construct_NewRelicClient env
                                     [Some k, x_new_relic_account_id h, Some region] \<rparr>)"

section \<open>The REST list operations and adapters\<close>

text \<open>
  Modelled from the spec: the REST client and the REST tool adapters (the modules
  \<^verbatim>\<open>src/client/rest-client\<close> and \<^verbatim>\<open>src/tools/rest/*\<close>) are not among the source files;
  only their tests are. The error kinds are those the spec names for the REST side.
\<close>

datatype rest_error = PreconditionError | RestApiError nat string

text \<open>
  Modelled from the spec: the \<^verbatim>\<open>RestResponse\<close> of the missing REST client,
  \<^verbatim>\<open>{ status, data, url, links }\<close>, with \<open>links\<close> a mapping from relation name to URL, kept
  as a list of pairs.
\<close>

record 'd rest_response =
  rest_status :: nat
  rest_data :: 'd
  rest_url :: string
  rest_links :: "(string \<times> string) list"

text \<open>
  Modelled from the spec: the page parameters given to the adapter-supplied page-fetch
  function of the missing pagination engine: the initial call, or the URL of a \<^verbatim>\<open>next\<close>
  relation that is followed.
\<close>

datatype page_params = InitialCall | FollowLink string

text \<open>
  Modelled from the spec: the adapter-supplied page-fetch function of the missing
  pagination engine, \<^verbatim>\<open>(pageParams) -> RestResponse\<close>, which may fail.
\<close>

type_synonym 'a page_fetch = "page_params \<Rightarrow> rest_error + 'a list rest_response"

text \<open>
  Modelled from the spec: the missing auto-pagination engine. It follows \<^verbatim>\<open>links.next\<close>
  until it is absent and accumulates each page's items in fetch order; a failure on any
  page propagates at once and the pages accumulated so far are discarded. Nothing bounds
  the number of pages, so the engine need not return: the result is \<open>None\<close> then. The
  result holds the page-fetch calls made, in order, and the outcome.
\<close>

partial_function (option) follow_next ::
  "'a page_fetch \<Rightarrow> page_params \<Rightarrow> 'a list \<Rightarrow> page_params list
     \<Rightarrow> (page_params list \<times> (rest_error + 'a list)) option" where
  "follow_next fetch params acc calls =
     (case fetch params of
        Inl e \<Rightarrow> Some (calls @ [params], Inl e)
      | Inr r \<Rightarrow>
          (case map_of (rest_links r) ''next'' of
             None \<Rightarrow> Some (calls @ [params], Inr (acc @ rest_data r))
           | Some u \<Rightarrow> follow_next fetch (FollowLink u) (acc @ rest_data r) (calls @ [params])))"

declare follow_next.simps [code]

text \<open>
  Modelled from the spec: a REST list operation of a missing adapter. With auto-pagination
  it runs the engine from the initial call; without, it returns the first page's items as
  they are and ignores any \<^verbatim>\<open>next\<close> relation.
\<close>

definition rest_list ::
  "bool \<Rightarrow> 'a page_fetch \<Rightarrow> (page_params list \<times> (rest_error + 'a list)) option" where
  "rest_list auto_paginate fetch =
     (if auto_paginate then follow_next fetch InitialCall [] []
      else (case fetch InitialCall of
              Inl e \<Rightarrow> Some ([InitialCall], Inl e)
            | Inr r \<Rightarrow> Some ([InitialCall], Inr (rest_data r))))"

text \<open>
  Modelled from the spec: an item of the missing \<^verbatim>\<open>RestAlertsTool.listIncidents\<close>, with the
  fields its test uses.
\<close>

record incident =
  incident_id :: nat
  incident_priority :: "string option"
  closed_at :: "int option"

text \<open>
  Modelled from the spec: the arguments of the missing \<^verbatim>\<open>listIncidents\<close> that the spec
  names; an absent \<^verbatim>\<open>auto_paginate\<close> or \<^verbatim>\<open>only_open\<close> is false.
\<close>

record incidents_args =
  auto_paginate :: bool
  only_open :: bool
  priority :: "string option"

text \<open>
  Modelled from the spec: the test of the missing \<^verbatim>\<open>only_open\<close> filter, "\<^verbatim>\<open>closed_at\<close> is
  falsy/zero": the field is absent or zero.
\<close>

definition closed_at_falsy :: "incident \<Rightarrow> bool" where
  "closed_at_falsy i = (case closed_at i of None \<Rightarrow> True | Some t \<Rightarrow> t = 0)"

text \<open>
  Modelled from the spec: the missing client-side filter \<^verbatim>\<open>only_open\<close>, which keeps the items
  whose \<^verbatim>\<open>closed_at\<close> is falsy.
\<close>

definition filter_only_open :: "incidents_args \<Rightarrow> incident list \<Rightarrow> incident list" where
  "filter_only_open args items = (if only_open args then filter closed_at_falsy items else items)"

text \<open>
  Modelled from the spec: the missing client-side filter \<^verbatim>\<open>priority\<close>, which keeps the items
  whose priority field equals the given value, letter case included.
\<close>

definition filter_priority :: "incidents_args \<Rightarrow> incident list \<Rightarrow> incident list" where
  "filter_priority args items =
     (case priority args of
        None \<Rightarrow> items
      | Some p \<Rightarrow> filter (\<lambda>i. incident_priority i = Some p) items)"

text \<open>
  Modelled from the spec: the missing \<^verbatim>\<open>RestAlertsTool.listIncidents\<close>. The two filters are
  applied to the items of the list operation's result, after all requested pages have been
  fetched and concatenated.
\<close>

definition listIncidents ::
  "incident page_fetch \<Rightarrow> incidents_args
     \<Rightarrow> (page_params list \<times> (rest_error + incident list)) option" where
  "listIncidents fetch args =
     (case rest_list (auto_paginate args) fetch of
        None \<Rightarrow> None
      | Some (calls, Inl e) \<Rightarrow> Some (calls, Inl e)
      | Some (calls, Inr items) \<Rightarrow>
          Some (calls, Inr (filter_priority args (filter_only_open args items))))"

text \<open>
  Modelled from the spec: the arguments of the missing \<^verbatim>\<open>RestDeploymentsTool.delete\<close>, as its
  test passes them; \<^verbatim>\<open>confirm\<close> may be absent.
\<close>

record delete_args =
  application_id :: nat
  deployment_id :: nat
  confirm :: "bool option"

text \<open>
  Modelled from the spec: the path the missing \<^verbatim>\<open>delete\<close> adapter addresses, as its test
  expects it: \<^verbatim>\<open>/applications/{application_id}/deployments/{id}\<close>.
\<close>

definition deployment_path :: "delete_args \<Rightarrow> string" where
  "deployment_path a =
     ''/applications/'' @ show_nat (application_id a) @ ''/deployments/'' @ show_nat (deployment_id a)"

text \<open>
  Modelled from the spec: the missing \<^verbatim>\<open>RestDeploymentsTool.delete\<close>. Without
  \<^verbatim>\<open>confirm = true\<close> it refuses with a \<^verbatim>\<open>PreconditionError\<close> before anything is sent. The
  result holds the paths given to the REST client's \<^verbatim>\<open>delete\<close>, and the outcome.
\<close>

definition delete_deployment ::
  "(string \<Rightarrow> rest_error + 'd rest_response) \<Rightarrow> delete_args
     \<Rightarrow> string list \<times> (rest_error + 'd rest_response)" where
  "delete_deployment del a =
     (if confirm a \<noteq> Some True then ([], Inl PreconditionError)
      else ([deployment_path a], del (deployment_path a)))"

section \<open>Predicates and fixtures used in the statements\<close>

text \<open>
  \<open>page_chain fetch params pages\<close>: starting with \<open>params\<close>, the upstream serves exactly
  the pages \<open>pages\<close>, each but the last carrying the \<^verbatim>\<open>next\<close> relation that leads to the one
  after it, and the last carrying none.
\<close>

fun page_chain :: "'a page_fetch \<Rightarrow> page_params \<Rightarrow> 'a list rest_response list \<Rightarrow> bool" where
  "page_chain fetch params [] = False"
| "page_chain fetch params (p # ps) =
     (fetch params = Inr p \<and>
      (case map_of (rest_links p) ''next'' of
         None \<Rightarrow> ps = []
       | Some u \<Rightarrow> page_chain fetch (FollowLink u) ps))"

text \<open>The calls that follow the \<^verbatim>\<open>next\<close> relations of a list of pages.\<close>

fun next_calls :: "'a list rest_response list \<Rightarrow> page_params list" where
  "next_calls [] = []"
| "next_calls (p # ps) =
     (case map_of (rest_links p) ''next'' of None \<Rightarrow> [] | Some u \<Rightarrow> FollowLink u # next_calls ps)"

text \<open>The items an incident listing keeps.\<close>

definition keeps_incident :: "incidents_args \<Rightarrow> incident \<Rightarrow> bool" where
  "keeps_incident args i =
     ((only_open args \<longrightarrow> closed_at i = None \<or> closed_at i = Some 0) \<and>
      (\<forall>p. priority args = Some p \<longrightarrow> incident_priority i = Some p))"

text \<open>An environment with nothing set, and the query of the client's tests.\<close>

definition empty_env :: environment where
  "empty_env = \<lparr> NEW_RELIC_API_KEY = None, NEW_RELIC_ACCOUNT_ID = None, NEW_RELIC_REGION = None \<rparr>"

definition user_query :: string where
  "user_query = ''{ actor { user { id } } }''"

text \<open>An upstream that answers every request with the given status and reason phrase.\<close>

definition status_fetch :: "nat \<Rightarrow> string \<Rightarrow> (unit, unit) fetch" where
  "status_fetch st reason =
     (\<lambda>req. Inr \<lparr> status = st, statusText = reason,
                  json = Inr \<lparr> data = Some (), errors = None \<rparr> \<rparr>)"

text \<open>
  An upstream that answers every request with status 204 and no body, so that
  \<^verbatim>\<open>response.json()\<close> rejects.
\<close>

definition no_content_response :: "unit http_response" where
  "no_content_response =
     \<lparr> status = 204, statusText = ''No Content'',
       json = Inl (Error ''Unexpected end of JSON input'') \<rparr>"

definition no_content_fetch :: "(unit, unit) fetch" where
  "no_content_fetch = (\<lambda>req. Inr no_content_response)"

text \<open>An upstream that answers every request with status 200 and the given envelope.\<close>

definition envelope_fetch :: "'d graphql_response \<Rightarrow> (unit, 'd) fetch" where
  "envelope_fetch envelope = (\<lambda>req. Inr \<lparr> status = 200, statusText = ''OK'', json = Inr envelope \<rparr>)"

definition some_nrql_data :: "nat nrql_data" where
  "some_nrql_data =
     \<lparr> actor = Some \<lparr> account = Some \<lparr> nrql = Some \<lparr> node_results = Some [7],
                                                      node_metadata = None \<rparr> \<rparr> \<rparr> \<rparr>"

text \<open>The two pages of the deployments test, and the upstream that serves them.\<close>

definition page2_url :: string where
  "page2_url = ''https://api.newrelic.com/v2/applications/1/deployments.json?page=2''"

definition two_pages :: "nat list rest_response list" where
  "two_pages =
     [ \<lparr> rest_status = 200, rest_data = [1], rest_url = ''u1'',
         rest_links = [(''next'', page2_url)] \<rparr>,
       \<lparr> rest_status = 200, rest_data = [2], rest_url = ''u2'', rest_links = [] \<rparr> ]"

definition two_page_fetch :: "nat page_fetch" where
  "two_page_fetch params =
     (case params of
        InitialCall \<Rightarrow> Inr (two_pages ! 0)
      | FollowLink u \<Rightarrow>
          if u = page2_url then Inr (two_pages ! 1) else Inl (RestApiError 404 ''Not Found''))"

text \<open>The two pages of the incidents test, and the upstream that serves them.\<close>

definition incident_pages :: "incident list rest_response list" where
  "incident_pages =
     [ \<lparr> rest_status = 200,
         rest_data = [\<lparr> incident_id = 1, incident_priority = Some ''HIGH'', closed_at = Some 0 \<rparr>],
         rest_url = ''u1'',
         rest_links = [(''next'', ''https://api.newrelic.com/v2/alerts_incidents.json?page=2'')] \<rparr>,
       \<lparr> rest_status = 200,
         rest_data = [\<lparr> incident_id = 2, incident_priority = Some ''LOW'', closed_at = Some 123 \<rparr>],
         rest_url = ''u2'',
         rest_links = [] \<rparr> ]"

definition incident_fetch :: "incident page_fetch" where
  "incident_fetch params =
     (case params of
        InitialCall \<Rightarrow> Inr (incident_pages ! 0)
      | FollowLink u \<Rightarrow> Inr (incident_pages ! 1))"

definition ok_delete :: "string \<Rightarrow> rest_error + bool rest_response" where
  "ok_delete path =
     Inr \<lparr> rest_status = 200, rest_data = True, rest_url = ''u'', rest_links = [] \<rparr>"

text \<open>The client of the client's tests: constructed with a key.\<close>

definition keyed_client :: client where
  "keyed_client = new_NewRelicClient empty_env (Some ''test-api-key'') None"

text \<open>Request headers of a session that asks for the EU region.\<close>

definition eu_headers :: request_headers where
  "eu_headers = \<lparr> x_new_relic_api_key = Some ''session-key'', x_new_relic_account_id = None,
                  x_new_relic_region = Some ''EU'' \<rparr>"

text \<open>The arguments of the incidents test.\<close>

definition open_high_args :: incidents_args where
  "open_high_args = \<lparr> auto_paginate = True, only_open = True, priority = Some ''HIGH'' \<rparr>"

text \<open>An envelope that carries NRQL data and the given \<^verbatim>\<open>errors\<close> member.\<close>

definition nrql_envelope :: "graphql_error list option \<Rightarrow> nat nrql_data graphql_response" where
  "nrql_envelope errs = \<lparr> data = Some some_nrql_data, errors = errs \<rparr>"

section \<open>Region resolution\<close>

lemma upper_char_E: "upper_char c = CHR ''E'' \<longleftrightarrow> c = CHR ''E'' \<or> c = CHR ''e''"
  by (auto simp: upper_char_def lower_letters_def upper_letters_def)

lemma upper_char_U: "upper_char c = CHR ''U'' \<longleftrightarrow> c = CHR ''U'' \<or> c = CHR ''u''"
  by (simp add: upper_char_def lower_letters_def upper_letters_def)

lemma toUpperCase_EU:
  "toUpperCase s = ''EU'' \<longleftrightarrow> s = ''EU'' \<or> s = ''Eu'' \<or> s = ''eU'' \<or> s = ''eu''"
proof (cases s)
  case Nil
  then show ?thesis by (simp add: toUpperCase_def)
next
  case outer: (Cons a t)
  show ?thesis
  proof (cases t)
    case Nil
    with outer show ?thesis by (simp add: toUpperCase_def)
  next
    case (Cons b u)
    with outer show ?thesis
      by (cases u) (auto simp: toUpperCase_def upper_char_E upper_char_U)
  qed
qed

lemma toUpperCase_Nil: "toUpperCase s = [] \<longleftrightarrow> s = []"
  by (simp add: toUpperCase_def)

lemma resolved_region:
  "or_str (map_option toUpperCase r) ''US'' = ''EU'' \<longleftrightarrow> is_eu_token r"
proof (cases r)
  case None
  then show ?thesis by (simp add: is_eu_token_def)
next
  case (Some s)
  then show ?thesis
    by (simp add: is_eu_token_def toUpperCase_EU toUpperCase_Nil)
qed

text \<open>
  Claim C8. Region resolution never fails and has two outcomes only: the GraphQL endpoint
  fixed at module load (and the subdomain the tests compute) is the EU-qualified one when
  \<^verbatim>\<open>NEW_RELIC_REGION\<close> is \<^verbatim>\<open>EU\<close> in any letter case, and the default US one for every other
  value, an absent or an unrecognised one included.
\<close>

theorem region_resolution:
  "NERDGRAPH_URL (load_module env) =
     (if is_eu_token (NEW_RELIC_REGION env) then ''https://api.eu.newrelic.com/graphql''
      else ''https://api.newrelic.com/graphql'')
   \<and> getRegionSubdomain env = (if is_eu_token (NEW_RELIC_REGION env) then ''.eu'' else [])"
proof
  show "NERDGRAPH_URL (load_module env) =
     (if is_eu_token (NEW_RELIC_REGION env) then ''https://api.eu.newrelic.com/graphql''
      else ''https://api.newrelic.com/graphql'')"
    by (simp add: load_module_def getNerdGraphUrl_def resolved_region)
next
  have "map_option toUpperCase r = Some ''EU'' \<longleftrightarrow> is_eu_token r" for r
    by (cases r) (simp_all add: is_eu_token_def toUpperCase_EU)
  then show "getRegionSubdomain env = (if is_eu_token (NEW_RELIC_REGION env) then ''.eu'' else [])"
    by (simp add: getRegionSubdomain_def)
qed

theorem region_resolution_witness:
  "NERDGRAPH_URL (load_module (empty_env\<lparr>NEW_RELIC_REGION := Some ''eU''\<rparr>)) = ''https://api.eu.newrelic.com/graphql''
   \<and> NERDGRAPH_URL (load_module (empty_env\<lparr>NEW_RELIC_REGION := Some ''APAC''\<rparr>)) = ''https://api.newrelic.com/graphql''
   \<and> NERDGRAPH_URL (load_module empty_env) = ''https://api.newrelic.com/graphql''
   \<and> getRegionSubdomain (empty_env\<lparr>NEW_RELIC_REGION := Some ''eu''\<rparr>) = ''.eu''"
  using region_resolution [of "empty_env\<lparr>NEW_RELIC_REGION := Some ''eU''\<rparr>"]
    region_resolution [of "empty_env\<lparr>NEW_RELIC_REGION := Some ''APAC''\<rparr>"]
    region_resolution [of empty_env]
    region_resolution [of "empty_env\<lparr>NEW_RELIC_REGION := Some ''eu''\<rparr>"]
  by (simp add: is_eu_token_def empty_env_def)

section \<open>The GraphQL transport: proofs\<close>

lemma api_key_missing_iff: "api_key_missing c \<longleftrightarrow> apiKey c = []"
  by (simp add: api_key_missing_def)

lemma execute_without_key:
  "api_key_missing c \<Longrightarrow>
   executeNerdGraphQuery m fetch c q v =
     ([], Inl (Error ''NEW_RELIC_API_KEY environment variable is not set''))"
  by (simp add: executeNerdGraphQuery_def)

lemma execute_sends_one:
  "\<not> api_key_missing c \<Longrightarrow>
   fst (executeNerdGraphQuery m fetch c q v) = [nerdgraph_request m c q v]"
  by (simp add: executeNerdGraphQuery_def Let_def split: sum.splits)

lemma execute_outcome:
  "\<not> api_key_missing c \<Longrightarrow> fetch (nerdgraph_request m c q v) = Inr r \<Longrightarrow>
   snd (executeNerdGraphQuery m fetch c q v) =
     (if response_ok r then json r
      else if status r = 401 then Inl (Error ''Unauthorized: Invalid API key'')
      else Inl (Error (''NerdGraph API error: '' @ show_nat (status r) @ '' '' @ statusText r)))"
  by (simp add: executeNerdGraphQuery_def Let_def)

lemma new_client_key:
  "apiKey (new_NewRelicClient env a d) =
     (case a of
        Some k \<Rightarrow> if k \<noteq> [] then k else or_str (NEW_RELIC_API_KEY env) []
      | None \<Rightarrow> or_str (NEW_RELIC_API_KEY env) [])"
  by (cases a) (auto simp: new_NewRelicClient_def or_else_def)

lemma or_str_empty: "or_str x [] = [] \<longleftrightarrow> \<not> truthy x"
  by (cases x) auto

lemma new_client_key_missing:
  "api_key_missing (new_NewRelicClient env a d) \<longleftrightarrow> \<not> truthy a \<and> \<not> truthy (NEW_RELIC_API_KEY env)"
  by (cases a) (auto simp: api_key_missing_iff new_client_key or_str_empty)

text \<open>
  Claim C5, as stated, fails in its last part. A response with status 204 and no body is a
  2xx response, and the call on it throws: \<^verbatim>\<open>response.json()\<close> rejects, and
  \<^verbatim>\<open>executeNerdGraphQuery\<close> awaits it and lets the rejection through.
\<close>

theorem undecodable_2xx_counterexample:
  "\<not> api_key_missing keyed_client
   \<and> no_content_fetch (nerdgraph_request (load_module empty_env) keyed_client user_query None)
       = Inr no_content_response
   \<and> response_ok no_content_response
   \<and> snd (executeNerdGraphQuery (load_module empty_env) no_content_fetch keyed_client
          user_query None)
       = Inl (Error ''Unexpected end of JSON input'')"
proof -
  have k: "\<not> api_key_missing keyed_client"
    by (simp add: keyed_client_def new_client_key_missing)
  have served:
    "no_content_fetch (nerdgraph_request (load_module empty_env) keyed_client user_query None)
       = Inr no_content_response"
    by (simp add: no_content_fetch_def)
  have ok: "response_ok no_content_response"
    by (simp add: response_ok_def no_content_response_def)
  have "snd (executeNerdGraphQuery (load_module empty_env) no_content_fetch keyed_client
          user_query None) = json no_content_response"
    using execute_outcome [where fetch = no_content_fetch, OF k served] ok by simp
  then have "snd (executeNerdGraphQuery (load_module empty_env) no_content_fetch keyed_client
          user_query None) = Inl (Error ''Unexpected end of JSON input'')"
    by (simp add: no_content_response_def)
  with k served ok show ?thesis by simp
qed

text \<open>
  Claim C5, amended. When the key check has passed and \<^verbatim>\<open>fetch\<close> has delivered a response:
  status 401 fails with exactly the message \<^verbatim>\<open>Unauthorized: Invalid API key\<close>; any other
  status outside 200 to 299 fails with \<^verbatim>\<open>NerdGraph API error: \<close> followed by the decimal
  status, a space and the reason phrase, so the message contains both; and a status in 200
  to 299 raises no status error: the outcome is what \<^verbatim>\<open>response.json()\<close> gives, the decoded
  envelope or the rejection of a body that does not decode.
\<close>

theorem transport_status_errors:
  assumes "\<not> api_key_missing c" and "fetch (nerdgraph_request m c q v) = Inr r"
  shows "(status r = 401 \<longrightarrow>
            snd (executeNerdGraphQuery m fetch c q v) = Inl (Error ''Unauthorized: Invalid API key''))
       \<and> (\<not> response_ok r \<and> status r \<noteq> 401 \<longrightarrow>
            (\<exists>msg. snd (executeNerdGraphQuery m fetch c q v) = Inl (Error msg)
                 \<and> msg = ''NerdGraph API error: '' @ show_nat (status r) @ '' '' @ statusText r
                 \<and> str_includes msg (show_nat (status r))
                 \<and> str_includes msg (statusText r)))
       \<and> (response_ok r \<longrightarrow> snd (executeNerdGraphQuery m fetch c q v) = json r)"
proof (intro conjI impI)
  assume "status r = 401"
  then have "\<not> response_ok r" by (simp add: response_ok_def)
  with assms \<open>status r = 401\<close>
  show "snd (executeNerdGraphQuery m fetch c q v) = Inl (Error ''Unauthorized: Invalid API key'')"
    by (simp add: execute_outcome)
next
  assume other: "\<not> response_ok r \<and> status r \<noteq> 401"
  let ?msg = "''NerdGraph API error: '' @ show_nat (status r) @ '' '' @ statusText r"
  have "snd (executeNerdGraphQuery m fetch c q v) = Inl (Error ?msg)"
    using assms other by (simp add: execute_outcome)
  moreover have "str_includes ?msg (show_nat (status r))"
    unfolding str_includes_def by (rule sublist_appendI)
  moreover have "str_includes ?msg (statusText r)"
  proof -
    have "?msg = (''NerdGraph API error: '' @ show_nat (status r) @ '' '') @ statusText r"
      by simp
    then show ?thesis
      unfolding str_includes_def by (metis sublist_append_leftI)
  qed
  ultimately show "\<exists>msg. snd (executeNerdGraphQuery m fetch c q v) = Inl (Error msg)
                 \<and> msg = ?msg \<and> str_includes msg (show_nat (status r))
                 \<and> str_includes msg (statusText r)"
    by blast
next
  assume "response_ok r"
  with assms show "snd (executeNerdGraphQuery m fetch c q v) = json r"
    by (simp add: execute_outcome)
qed

lemma show_nat_500: "show_nat 500 = ''500''"
  by (simp add: show_nat.simps digit_char_def)

text \<open>
  The two responses of the client's test, and a 200 response.
\<close>

theorem transport_status_errors_witness:
  "snd (executeNerdGraphQuery (load_module empty_env) (status_fetch 401 ''Unauthorized'')
          keyed_client user_query None)
     = Inl (Error ''Unauthorized: Invalid API key'')
   \<and> snd (executeNerdGraphQuery (load_module empty_env) (status_fetch 500 ''Internal Server Error'')
          keyed_client user_query None)
     = Inl (Error ''NerdGraph API error: 500 Internal Server Error'')
   \<and> snd (executeNerdGraphQuery (load_module empty_env) (status_fetch 200 ''OK'')
          keyed_client user_query None)
     = Inr \<lparr> data = Some (), errors = None \<rparr>"
proof -
  have k: "\<not> api_key_missing keyed_client"
    by (simp add: keyed_client_def new_client_key_missing)
  have f: "status_fetch st reason (nerdgraph_request (load_module empty_env) keyed_client user_query None)
        = Inr \<lparr> status = st, statusText = reason, json = Inr \<lparr> data = Some (), errors = None \<rparr> \<rparr>"
    for st reason
    by (simp add: status_fetch_def)
  show ?thesis
    using transport_status_errors [where fetch = "status_fetch 401 ''Unauthorized''", OF k f]
      transport_status_errors [where fetch = "status_fetch 500 ''Internal Server Error''", OF k f]
      transport_status_errors [where fetch = "status_fetch 200 ''OK''", OF k f]
    by (simp add: response_ok_def show_nat_500)
qed

text \<open>
  Claim C6, as stated, fails. A client is constructed while neither the argument nor
  \<^verbatim>\<open>NEW_RELIC_API_KEY\<close> gives a key; the variable is set afterwards (a client constructed
  now would carry \<^verbatim>\<open>late-key\<close>). A call on the first client reads the field the
  constructor wrote and nothing else, so it still fails the key check and sends nothing.
\<close>

theorem late_key_counterexample:
  "apiKey (new_NewRelicClient (empty_env\<lparr>NEW_RELIC_API_KEY := Some ''late-key''\<rparr>) None None) = ''late-key''
   \<and> executeNerdGraphQuery (load_module empty_env) (status_fetch 200 ''OK'')
         (new_NewRelicClient empty_env None None) user_query None
       = ([], Inl (Error ''NEW_RELIC_API_KEY environment variable is not set''))"
  by (simp add: executeNerdGraphQuery_def api_key_missing_def new_NewRelicClient_def
      or_else_def empty_env_def)

text \<open>
  Claim C6, amended. The key check is made on every call, before anything is sent, on the
  client's key field: with an empty key the call fails with
  \<^verbatim>\<open>NEW_RELIC_API_KEY environment variable is not set\<close> and sends nothing; with a
  non-empty key it sends exactly one request, which carries that key. The field is the one
  the constructor fixed: the argument if non-empty, else \<^verbatim>\<open>NEW_RELIC_API_KEY\<close> as read at
  construction if non-empty, else the empty string.
\<close>

theorem api_key_check_per_call:
  "(apiKey c = [] \<longrightarrow>
      executeNerdGraphQuery m fetch c q v =
        ([], Inl (Error ''NEW_RELIC_API_KEY environment variable is not set'')))
   \<and> (apiKey c \<noteq> [] \<longrightarrow>
      fst (executeNerdGraphQuery m fetch c q v) = [nerdgraph_request m c q v]
      \<and> req_api_key (nerdgraph_request m c q v) = apiKey c)
   \<and> apiKey (new_NewRelicClient env a d) =
       (if truthy a then the a
        else if truthy (NEW_RELIC_API_KEY env) then the (NEW_RELIC_API_KEY env) else [])"
proof (intro conjI impI)
  assume "apiKey c = []"
  then show "executeNerdGraphQuery m fetch c q v =
        ([], Inl (Error ''NEW_RELIC_API_KEY environment variable is not set''))"
    by (simp add: execute_without_key api_key_missing_iff)
next
  assume "apiKey c \<noteq> []"
  then show "fst (executeNerdGraphQuery m fetch c q v) = [nerdgraph_request m c q v]"
    by (simp add: execute_sends_one api_key_missing_iff)
next
  show "req_api_key (nerdgraph_request m c q v) = apiKey c"
    by (simp add: nerdgraph_request_def)
next
  show "apiKey (new_NewRelicClient env a d) =
       (if truthy a then the a
        else if truthy (NEW_RELIC_API_KEY env) then the (NEW_RELIC_API_KEY env) else [])"
    by (cases a; cases "NEW_RELIC_API_KEY env") (auto simp: new_client_key)
qed

text \<open>
  A client constructed with an empty key and no variable, and one that takes its key from
  the variable.
\<close>

theorem api_key_check_per_call_witness:
  "executeNerdGraphQuery (load_module empty_env) (status_fetch 200 ''OK'')
         (new_NewRelicClient empty_env (Some []) None) user_query None
       = ([], Inl (Error ''NEW_RELIC_API_KEY environment variable is not set''))
   \<and> map req_api_key (fst (executeNerdGraphQuery (load_module empty_env) (status_fetch 200 ''OK'')
         (new_NewRelicClient (empty_env\<lparr>NEW_RELIC_API_KEY := Some ''env-key''\<rparr>) None None)
         user_query None)) = [''env-key'']"
  using api_key_check_per_call [of "new_NewRelicClient empty_env (Some []) None"
      "load_module empty_env" "status_fetch 200 ''OK''" user_query None empty_env "Some []" None]
    api_key_check_per_call [of
      "new_NewRelicClient (empty_env\<lparr>NEW_RELIC_API_KEY := Some ''env-key''\<rparr>) None None"
      "load_module empty_env" "status_fetch 200 ''OK''" user_query None
      "empty_env\<lparr>NEW_RELIC_API_KEY := Some ''env-key''\<rparr>" None None]
  by (simp add: empty_env_def)

text \<open>
  Claim C10. A client constructed with an absent or empty \<^verbatim>\<open>apiKey\<close> argument has the value
  of \<^verbatim>\<open>NEW_RELIC_API_KEY\<close> at construction as its key (the empty string when the variable
  is unset); with an absent or empty \<^verbatim>\<open>defaultAccountId\<close> argument its default account is
  \<^verbatim>\<open>NEW_RELIC_ACCOUNT_ID\<close>; and a call fails the key check, sending nothing, exactly when
  both the argument and the variable are absent or empty.
\<close>

theorem api_key_env_fallback:
  "(\<not> truthy a \<longrightarrow>
      apiKey (new_NewRelicClient env a d) =
        (case NEW_RELIC_API_KEY env of None \<Rightarrow> [] | Some k \<Rightarrow> k))
   \<and> (\<not> truthy d \<longrightarrow>
      defaultAccountId (new_NewRelicClient env a d) = NEW_RELIC_ACCOUNT_ID env)
   \<and> (executeNerdGraphQuery m fetch (new_NewRelicClient env a d) q v =
        ([], Inl (Error ''NEW_RELIC_API_KEY environment variable is not set''))
      \<longleftrightarrow> \<not> truthy a \<and> \<not> truthy (NEW_RELIC_API_KEY env))"
proof (intro conjI impI)
  assume "\<not> truthy a"
  then show "apiKey (new_NewRelicClient env a d) =
        (case NEW_RELIC_API_KEY env of None \<Rightarrow> [] | Some k \<Rightarrow> k)"
    by (cases a; cases "NEW_RELIC_API_KEY env") (auto simp: new_client_key)
next
  assume "\<not> truthy d"
  then show "defaultAccountId (new_NewRelicClient env a d) = NEW_RELIC_ACCOUNT_ID env"
    by (simp add: new_NewRelicClient_def or_else_def)
next
  let ?c = "new_NewRelicClient env a d"
  show "executeNerdGraphQuery m fetch ?c q v =
        ([], Inl (Error ''NEW_RELIC_API_KEY environment variable is not set''))
      \<longleftrightarrow> \<not> truthy a \<and> \<not> truthy (NEW_RELIC_API_KEY env)"
  proof (cases "api_key_missing ?c")
    case True
    then show ?thesis
      using new_client_key_missing [of env a d] by (simp add: execute_without_key)
  next
    case False
    then have "fst (executeNerdGraphQuery m fetch ?c q v) \<noteq> []"
      by (simp add: execute_sends_one)
    then have "executeNerdGraphQuery m fetch ?c q v \<noteq>
        ([], Inl (Error ''NEW_RELIC_API_KEY environment variable is not set''))"
      by auto
    with False show ?thesis
      using new_client_key_missing [of env a d] by simp
  qed
qed

text \<open>
  The environment of the client's tests, and the missing-key test.
\<close>

theorem api_key_env_fallback_witness:
  "apiKey (new_NewRelicClient (empty_env\<lparr>NEW_RELIC_API_KEY := Some ''test-api-key''\<rparr>) (Some []) None)
     = ''test-api-key''
   \<and> defaultAccountId (new_NewRelicClient (empty_env\<lparr>NEW_RELIC_ACCOUNT_ID := Some ''123456''\<rparr>) None None)
     = Some ''123456''
   \<and> executeNerdGraphQuery (load_module empty_env) (status_fetch 200 ''OK'')
        (new_NewRelicClient empty_env None None) user_query None
     = ([], Inl (Error ''NEW_RELIC_API_KEY environment variable is not set''))"
  using api_key_env_fallback [of "Some []" "empty_env\<lparr>NEW_RELIC_API_KEY := Some ''test-api-key''\<rparr>"
      None "load_module empty_env" "status_fetch 200 ''OK''" user_query None]
    api_key_env_fallback [of None "empty_env\<lparr>NEW_RELIC_ACCOUNT_ID := Some ''123456''\<rparr>"
      None "load_module empty_env" "status_fetch 200 ''OK''" user_query None]
    api_key_env_fallback [of None empty_env
      None "load_module empty_env" "status_fetch 200 ''OK''" user_query None]
  by (simp add: empty_env_def)

text \<open>
  Claim C9. Every request that \<^verbatim>\<open>executeNerdGraphQuery\<close> sends, for any client, goes to the
  URL computed from \<^verbatim>\<open>NEW_RELIC_REGION\<close> when the module was loaded. A third constructor
  argument is bound to nothing, so the client the HTTP server builds for a session is the
  same whatever region header the session sent.
\<close>

theorem nerdgraph_url_fixed_at_load:
  "(\<forall>req \<in> set (fst (executeNerdGraphQuery (load_module env0) fetch c q v)).
       req_url req = getNerdGraphUrl (or_str (map_option toUpperCase (NEW_RELIC_REGION env0)) ''US''))
   \<and> construct_NewRelicClient env [k, a, region] = new_NewRelicClient env k a
   \<and> map_option ctx_client (createSessionFromHeaders env (h\<lparr>x_new_relic_region := region\<rparr>))
       = map_option ctx_client (createSessionFromHeaders env h)"
proof (intro conjI)
  show "\<forall>req \<in> set (fst (executeNerdGraphQuery (load_module env0) fetch c q v)).
       req_url req = getNerdGraphUrl (or_str (map_option toUpperCase (NEW_RELIC_REGION env0)) ''US'')"
  proof (cases "api_key_missing c")
    case True
    then show ?thesis by (simp add: execute_without_key)
  next
    case False
    then show ?thesis
      by (simp add: execute_sends_one nerdgraph_request_def load_module_def)
  qed
next
  show "construct_NewRelicClient env [k, a, region] = new_NewRelicClient env k a"
    by (simp add: construct_NewRelicClient_def argument_def)
next
  show "map_option ctx_client (createSessionFromHeaders env (h\<lparr>x_new_relic_region := region\<rparr>))
       = map_option ctx_client (createSessionFromHeaders env h)"
    by (simp add: createSessionFromHeaders_def Let_def construct_NewRelicClient_def argument_def
        split: option.splits)
qed

text \<open>
  A session that asks for the EU region, in a process loaded without
  \<^verbatim>\<open>NEW_RELIC_REGION\<close>: its requests go to the US endpoint.
\<close>

theorem nerdgraph_url_fixed_at_load_witness:
  "map_option ctx_region (createSessionFromHeaders empty_env eu_headers) = Some ''EU''
   \<and> map req_url (fst (executeNerdGraphQuery (load_module empty_env) (status_fetch 200 ''OK'')
        (construct_NewRelicClient empty_env [Some ''session-key'', None, Some ''EU'']) user_query None))
     = [''https://api.newrelic.com/graphql'']"
proof -
  let ?c = "construct_NewRelicClient empty_env [Some ''session-key'', None, Some ''EU'']"
  have sent: "fst (executeNerdGraphQuery (load_module empty_env) (status_fetch 200 ''OK'') ?c user_query None)
      = [nerdgraph_request (load_module empty_env) ?c user_query None]"
    by (simp add: execute_sends_one api_key_missing_iff construct_NewRelicClient_def argument_def
        new_client_key)
  have region: "map_option ctx_region (createSessionFromHeaders empty_env eu_headers) = Some ''EU''"
    by (simp add: createSessionFromHeaders_def eu_headers_def toUpperCase_def upper_char_def
        lower_letters_def upper_letters_def Let_def)
  have r0: "NEW_RELIC_REGION empty_env = None"
    by (simp add: empty_env_def)
  have "\<forall>req \<in> set (fst (executeNerdGraphQuery (load_module empty_env) (status_fetch 200 ''OK'')
            ?c user_query None)). req_url req = ''https://api.newrelic.com/graphql''"
    using nerdgraph_url_fixed_at_load [of empty_env "status_fetch 200 ''OK''" ?c user_query None
        empty_env "Some ''session-key''" None "Some ''EU''" eu_headers]
    by (simp add: r0 getNerdGraphUrl_def)
  then have "map req_url (fst (executeNerdGraphQuery (load_module empty_env) (status_fetch 200 ''OK'')
            ?c user_query None)) = [''https://api.newrelic.com/graphql'']"
    by (simp add: sent)
  with region show ?thesis by simp
qed

section \<open>\<^verbatim>\<open>runNrqlQuery\<close>: proofs\<close>

lemma all_digits_nonempty: "all_digits s \<Longrightarrow> s \<noteq> []"
  by (simp add: all_digits_def)

lemma runNrqlQuery_outcome:
  assumes "nrql_text \<noteq> []" and "all_digits accountId" and "\<not> api_key_missing c"
    and "fetch (nerdgraph_request m c (nrql_query_document accountId nrql_text) None) = Inr r"
    and "response_ok r" and "json r = Inr response"
  shows "snd (runNrqlQuery m fetch c nrql_text accountId) =
           (case nrql_try_body nrql_text response of
              Inl e \<Rightarrow> Inl (nrql_catch e) | Inr x \<Rightarrow> Inr x)"
proof -
  have "snd (executeNerdGraphQuery m fetch c (nrql_query_document accountId nrql_text) None)
          = Inr response"
    using assms(3-6) by (simp add: execute_outcome)
  with assms(1,2) show ?thesis
    by (simp add: runNrqlQuery_def all_digits_nonempty Let_def case_prod_beta)
qed

lemma first_error_message_cases:
  "first_error_message errs =
     (case errs of
        [] \<Rightarrow> ''NRQL query failed''
      | e # _ \<Rightarrow> if message e = [] then ''NRQL query failed'' else message e)"
  by (cases errs) (simp_all add: first_error_message_def)

lemma no_results_not_syntax:
  "\<not> str_includes ''No results returned from NRQL query'' ''Syntax error''"
  unfolding str_includes_def by (simp add: sublist_Cons_right)

text \<open>
  Claim C7, amended. For a valid query and account id, a client with a key and a 2xx
  response whose body decodes to an envelope: if the envelope has an \<^verbatim>\<open>errors\<close> array, empty
  or not and whatever \<^verbatim>\<open>data\<close> holds, \<^verbatim>\<open>runNrqlQuery\<close> fails; the message is the first
  entry's message when there is a first entry with a non-empty message and
  \<^verbatim>\<open>NRQL query failed\<close> otherwise, and it is prefixed with \<^verbatim>\<open>NRQL Syntax error: \<close> exactly
  when it contains \<^verbatim>\<open>Syntax error\<close>. If the envelope has no \<^verbatim>\<open>errors\<close> member, the outcome
  is the result built from \<^verbatim>\<open>data\<close>, or the failure
  \<^verbatim>\<open>No results returned from NRQL query\<close>, which is never relabelled.
\<close>

theorem nrql_errors_envelope:
  assumes "nrql_text \<noteq> []" and "all_digits accountId" and "\<not> api_key_missing c"
    and "fetch (nerdgraph_request m c (nrql_query_document accountId nrql_text) None) = Inr r"
    and "response_ok r" and "json r = Inr response"
  shows "(\<forall>errs. errors response = Some errs \<longrightarrow>
            snd (runNrqlQuery m fetch c nrql_text accountId) =
              Inl (Error (if sublist ''Syntax error'' (first_error_message errs)
                          then ''NRQL Syntax error: '' @ first_error_message errs
                          else first_error_message errs))
            \<and> first_error_message errs =
                (case errs of
                   [] \<Rightarrow> ''NRQL query failed''
                 | e # _ \<Rightarrow> if message e = [] then ''NRQL query failed'' else message e))
       \<and> (errors response = None \<longrightarrow>
            snd (runNrqlQuery m fetch c nrql_text accountId) =
              (case nrql_result_of response of
                 None \<Rightarrow> Inl (Error ''No results returned from NRQL query'')
               | Some node \<Rightarrow>
                   Inr \<lparr> results = (case node_results node of Some rs \<Rightarrow> rs | None \<Rightarrow> []),
                         metadata = spread_metadata (node_metadata node)
                                      (sublist ''timeseries'' (toLowerCase nrql_text)) \<rparr>))"
proof (intro conjI allI impI)
  fix errs
  assume "errors response = Some errs"
  then show "snd (runNrqlQuery m fetch c nrql_text accountId) =
              Inl (Error (if sublist ''Syntax error'' (first_error_message errs)
                          then ''NRQL Syntax error: '' @ first_error_message errs
                          else first_error_message errs))"
    by (simp add: runNrqlQuery_outcome [where fetch = fetch and r = r, OF assms] nrql_try_body_def nrql_catch_def str_includes_def)
next
  fix errs
  show "first_error_message errs =
                (case errs of
                   [] \<Rightarrow> ''NRQL query failed''
                 | e # _ \<Rightarrow> if message e = [] then ''NRQL query failed'' else message e)"
    by (rule first_error_message_cases)
next
  assume "errors response = None"
  then show "snd (runNrqlQuery m fetch c nrql_text accountId) =
              (case nrql_result_of response of
                 None \<Rightarrow> Inl (Error ''No results returned from NRQL query'')
               | Some node \<Rightarrow>
                   Inr \<lparr> results = (case node_results node of Some rs \<Rightarrow> rs | None \<Rightarrow> []),
                         metadata = spread_metadata (node_metadata node)
                                      (sublist ''timeseries'' (toLowerCase nrql_text)) \<rparr>)"
    using no_results_not_syntax
    by (simp add: runNrqlQuery_outcome [where fetch = fetch and r = r, OF assms] nrql_try_body_def nrql_catch_def
        str_includes_def split: option.splits)
qed

lemma digits_123: "all_digits ''123''"
  by (simp add: all_digits_def)

lemma envelope_fetch_served:
  "envelope_fetch envelope req = Inr \<lparr> status = 200, statusText = ''OK'', json = Inr envelope \<rparr>"
  by (simp add: envelope_fetch_def)

lemma ok_200: "response_ok \<lparr> status = 200, statusText = t, json = j \<rparr>"
  by (simp add: response_ok_def)

lemma json_200: "json \<lparr> status = 200, statusText = t, json = Inr envelope \<rparr> = Inr envelope"
  by simp

lemma keyed: "\<not> api_key_missing keyed_client"
  by (simp add: keyed_client_def new_client_key_missing)

lemma select_1_nonempty: "''SELECT 1'' \<noteq> []"
  by simp

lemma select_1_try_empty_errors:
  "nrql_try_body ''SELECT 1'' (nrql_envelope (Some [])) = Inl (Error ''NRQL query failed'')"
  by (simp add: nrql_try_body_def nrql_envelope_def first_error_message_def)

lemma select_1_not_timeseries: "\<not> str_includes (toLowerCase ''SELECT 1'') ''timeseries''"
  by (simp add: str_includes_def toLowerCase_def lower_char_def lower_letters_def
      upper_letters_def sublist_Cons_right)

lemma select_1_try_no_errors:
  "nrql_try_body ''SELECT 1'' (nrql_envelope None) =
     Inr \<lparr> results = [7],
           metadata = \<lparr> eventTypes = None, timeWindow = None, facets = None,
                        timeSeries = False \<rparr> \<rparr>"
  using select_1_not_timeseries
  by (simp add: nrql_try_body_def nrql_envelope_def nrql_result_of_def some_nrql_data_def
      spread_metadata_def)

lemma query_failed_not_syntax: "nrql_catch (Error ''NRQL query failed'') = Error ''NRQL query failed''"
  by (simp add: nrql_catch_def str_includes_def sublist_Cons_right)

text \<open>
  Claim C7, as stated, fails. An envelope with complete \<^verbatim>\<open>data\<close> and an \<^verbatim>\<open>errors\<close> array that
  is present but empty makes \<^verbatim>\<open>runNrqlQuery\<close> fail with \<^verbatim>\<open>NRQL query failed\<close>; the same
  envelope without the \<^verbatim>\<open>errors\<close> member gives a result.
\<close>

theorem empty_errors_counterexample:
  "errors (nrql_envelope (Some [])) = Some []
   \<and> data (nrql_envelope (Some [])) = data (nrql_envelope None)
   \<and> snd (runNrqlQuery (load_module empty_env) (envelope_fetch (nrql_envelope (Some [])))
          keyed_client ''SELECT 1'' ''123'')
       = Inl (Error ''NRQL query failed'')
   \<and> snd (runNrqlQuery (load_module empty_env) (envelope_fetch (nrql_envelope None))
          keyed_client ''SELECT 1'' ''123'')
       = Inr \<lparr> results = [7],
               metadata = \<lparr> eventTypes = None, timeWindow = None, facets = None,
                            timeSeries = False \<rparr> \<rparr>"
proof -
  have a: "snd (runNrqlQuery (load_module empty_env) (envelope_fetch (nrql_envelope (Some [])))
          keyed_client ''SELECT 1'' ''123'') = Inl (Error ''NRQL query failed'')"
    using runNrqlQuery_outcome [where fetch = "envelope_fetch (nrql_envelope (Some []))",
        OF select_1_nonempty digits_123 keyed envelope_fetch_served ok_200 json_200]
    by (simp add: select_1_try_empty_errors query_failed_not_syntax)
  have b: "snd (runNrqlQuery (load_module empty_env) (envelope_fetch (nrql_envelope None))
          keyed_client ''SELECT 1'' ''123'')
       = Inr \<lparr> results = [7],
               metadata = \<lparr> eventTypes = None, timeWindow = None, facets = None,
                            timeSeries = False \<rparr> \<rparr>"
    using runNrqlQuery_outcome [where fetch = "envelope_fetch (nrql_envelope None)",
        OF select_1_nonempty digits_123 keyed envelope_fetch_served ok_200 json_200]
    by (simp add: select_1_try_no_errors)
  show ?thesis
    using a b by (simp add: nrql_envelope_def)
qed

text \<open>
  An upstream syntax error, another upstream error, and the empty \<^verbatim>\<open>errors\<close> array.
\<close>

theorem nrql_errors_envelope_witness:
  "''SELECT 1'' \<noteq> [] \<and> all_digits ''123'' \<and> \<not> api_key_missing keyed_client
   \<and> snd (runNrqlQuery (load_module empty_env)
          (envelope_fetch (nrql_envelope (Some [\<lparr> message = ''Syntax error near FROM'' \<rparr>])))
          keyed_client ''SELECT 1'' ''123'')
       = Inl (Error ''NRQL Syntax error: Syntax error near FROM'')
   \<and> snd (runNrqlQuery (load_module empty_env)
          (envelope_fetch (nrql_envelope (Some [\<lparr> message = ''Unknown event type'' \<rparr>])))
          keyed_client ''SELECT 1'' ''123'')
       = Inl (Error ''Unknown event type'')
   \<and> snd (runNrqlQuery (load_module empty_env)
          (envelope_fetch (nrql_envelope (Some [])))
          keyed_client ''SELECT 1'' ''123'')
       = Inl (Error ''NRQL query failed'')"
proof -
  have s1: "sublist ''Syntax error'' ''Syntax error near FROM''"
    by (simp add: sublist_Cons_right)
  have s2: "\<not> sublist ''Syntax error'' ''Unknown event type''"
    by (simp add: sublist_Cons_right)
  have s3: "\<not> sublist ''Syntax error'' ''NRQL query failed''"
    by (simp add: sublist_Cons_right)
  have e1: "snd (runNrqlQuery (load_module empty_env)
          (envelope_fetch (nrql_envelope (Some [\<lparr> message = ''Syntax error near FROM'' \<rparr>])))
          keyed_client ''SELECT 1'' ''123'')
       = Inl (Error ''NRQL Syntax error: Syntax error near FROM'')"
    using nrql_errors_envelope [where
        fetch = "envelope_fetch (nrql_envelope (Some [\<lparr> message = ''Syntax error near FROM'' \<rparr>]))",
        OF select_1_nonempty digits_123 keyed envelope_fetch_served ok_200 json_200]
    by (simp add: nrql_envelope_def s1)
  have e2: "snd (runNrqlQuery (load_module empty_env)
          (envelope_fetch (nrql_envelope (Some [\<lparr> message = ''Unknown event type'' \<rparr>])))
          keyed_client ''SELECT 1'' ''123'')
       = Inl (Error ''Unknown event type'')"
    using nrql_errors_envelope [where
        fetch = "envelope_fetch (nrql_envelope (Some [\<lparr> message = ''Unknown event type'' \<rparr>]))",
        OF select_1_nonempty digits_123 keyed envelope_fetch_served ok_200 json_200]
    by (simp add: nrql_envelope_def s2)
  have e3: "snd (runNrqlQuery (load_module empty_env)
          (envelope_fetch (nrql_envelope (Some [])))
          keyed_client ''SELECT 1'' ''123'')
       = Inl (Error ''NRQL query failed'')"
    using nrql_errors_envelope [where fetch = "envelope_fetch (nrql_envelope (Some []))",
        OF select_1_nonempty digits_123 keyed envelope_fetch_served ok_200 json_200]
    by (simp add: nrql_envelope_def s3)
  show ?thesis
    using select_1_nonempty digits_123 keyed e1 e2 e3 by simp
qed

section \<open>The REST list operations: proofs\<close>

lemma follow_next_chain:
  "page_chain fetch params pages \<Longrightarrow>
   follow_next fetch params acc calls =
     Some (calls @ params # next_calls pages, Inr (acc @ concat (map rest_data pages)))"
proof (induction pages arbitrary: params acc calls)
  case Nil
  then show ?case by simp
next
  case (Cons p ps)
  from Cons.prems have served: "fetch params = Inr p" by simp
  show ?case
  proof (cases "map_of (rest_links p) ''next''")
    case None
    with Cons.prems have "ps = []" by simp
    with served None show ?thesis
      by (subst follow_next.simps) simp
  next
    case (Some u)
    with Cons.prems have "page_chain fetch (FollowLink u) ps" by simp
    from Cons.IH [OF this, of "acc @ rest_data p" "calls @ [params]"] served Some
    show ?thesis
      by (subst follow_next.simps) simp
  qed
qed

lemma chain_calls_length:
  "page_chain fetch params pages \<Longrightarrow> Suc (length (next_calls pages)) = length pages"
proof (induction pages arbitrary: params)
  case Nil
  then show ?case by simp
next
  case (Cons p ps)
  then show ?case
    by (cases "map_of (rest_links p) ''next''") auto
qed

lemma length_concat_uniform:
  "(\<forall>p \<in> set pages. length (f p) = k) \<Longrightarrow> length (concat (map f pages)) = length pages * k"
  by (induction pages) simp_all

text \<open>
  Claim C1. When the upstream serves a finite chain of pages from the initial call, a list
  operation with auto-pagination returns: it makes one call per page, the initial call and
  then the \<^verbatim>\<open>next\<close> relation of each page in turn, and its result is the concatenation of the
  pages' items in fetch order; with \<open>k\<close> items on each of the pages that is (number of pages)
  times \<open>k\<close> items.
\<close>

theorem auto_paginate_concatenates_pages:
  assumes "page_chain fetch InitialCall pages"
  shows "rest_list True fetch =
           Some (InitialCall # next_calls pages, Inr (concat (map rest_data pages)))
       \<and> length (InitialCall # next_calls pages) = length pages
       \<and> ((\<forall>p \<in> set pages. length (rest_data p) = k) \<longrightarrow>
            length (concat (map rest_data pages)) = length pages * k)"
proof (intro conjI impI)
  show "rest_list True fetch =
           Some (InitialCall # next_calls pages, Inr (concat (map rest_data pages)))"
    using follow_next_chain [OF assms, of "[]" "[]"] by (simp add: rest_list_def)
next
  show "length (InitialCall # next_calls pages) = length pages"
    using chain_calls_length [OF assms] by simp
next
  assume "\<forall>p \<in> set pages. length (rest_data p) = k"
  then show "length (concat (map rest_data pages)) = length pages * k"
    by (rule length_concat_uniform)
qed

text \<open>
  The two pages of the deployments test.
\<close>

theorem auto_paginate_concatenates_pages_witness:
  "page_chain two_page_fetch InitialCall two_pages
   \<and> rest_list True two_page_fetch = Some ([InitialCall, FollowLink page2_url], Inr [1, 2])"
proof -
  have chain: "page_chain two_page_fetch InitialCall two_pages"
    by (simp add: two_page_fetch_def two_pages_def)
  have calls: "next_calls two_pages = [FollowLink page2_url]"
    by (simp add: two_pages_def)
  have items: "concat (map rest_data two_pages) = [1, 2]"
    by (simp add: two_pages_def)
  show ?thesis
    using chain auto_paginate_concatenates_pages [OF chain, of 1] by (simp add: calls items)
qed

text \<open>
  Claim C2. Without auto-pagination a list operation makes exactly one upstream call, the
  initial one, and returns the items of that page as they are (or its failure); the page's
  link relations play no part.
\<close>

theorem first_page_only_without_auto_paginate:
  "(\<forall>r. fetch InitialCall = Inr r \<longrightarrow>
        rest_list False fetch = Some ([InitialCall], Inr (rest_data r)))
   \<and> (\<forall>e. fetch InitialCall = Inl e \<longrightarrow> rest_list False fetch = Some ([InitialCall], Inl e))
   \<and> (\<exists>outcome. rest_list False fetch = Some ([InitialCall], outcome))"
  by (cases "fetch InitialCall") (simp_all add: rest_list_def)

text \<open>
  The first page of the deployments test carries a \<^verbatim>\<open>next\<close> relation; only its item comes
  back.
\<close>

theorem first_page_only_without_auto_paginate_witness:
  "map_of (rest_links (two_pages ! 0)) ''next'' = Some page2_url
   \<and> two_page_fetch InitialCall = Inr (two_pages ! 0)
   \<and> rest_list False two_page_fetch = Some ([InitialCall], Inr [1])"
proof -
  have served: "two_page_fetch InitialCall = Inr (two_pages ! 0)"
    by (simp add: two_page_fetch_def)
  have "rest_list False two_page_fetch = Some ([InitialCall], Inr (rest_data (two_pages ! 0)))"
    using first_page_only_without_auto_paginate [of two_page_fetch] served by blast
  then show ?thesis
    using served by (simp add: two_pages_def)
qed

lemma incident_filters:
  "filter_priority args (filter_only_open args items) = filter (keeps_incident args) items"
proof -
  have open_eq: "closed_at_falsy i \<longleftrightarrow> closed_at i = None \<or> closed_at i = Some 0" for i
    by (cases "closed_at i") (simp_all add: closed_at_falsy_def)
  show ?thesis
    by (cases "priority args")
      (auto simp: filter_priority_def filter_only_open_def keeps_incident_def open_eq
        intro: filter_cong)
qed

text \<open>
  Claim C3. \<^verbatim>\<open>listIncidents\<close> fetches the pages of the list operation as if there were no
  filter, and returns, in order, exactly those items of the whole fetched result that
  pass: with \<^verbatim>\<open>only_open\<close>, the items whose \<^verbatim>\<open>closed_at\<close> is absent or zero; with a
  \<^verbatim>\<open>priority\<close>, the items whose priority is that very string.
\<close>

theorem listIncidents_filters_whole_result:
  assumes "page_chain fetch InitialCall pages"
  shows "(auto_paginate args \<longrightarrow>
            listIncidents fetch args =
              Some (InitialCall # next_calls pages,
                    Inr (filter (keeps_incident args) (concat (map rest_data pages)))))
       \<and> (\<not> auto_paginate args \<longrightarrow>
            listIncidents fetch args =
              Some ([InitialCall], Inr (filter (keeps_incident args) (rest_data (hd pages)))))"
proof (intro conjI impI)
  assume auto: "auto_paginate args"
  have "rest_list True fetch =
           Some (InitialCall # next_calls pages, Inr (concat (map rest_data pages)))"
    using follow_next_chain [OF assms, of "[]" "[]"] by (simp add: rest_list_def)
  with auto show "listIncidents fetch args =
              Some (InitialCall # next_calls pages,
                    Inr (filter (keeps_incident args) (concat (map rest_data pages))))"
    by (simp add: listIncidents_def incident_filters)
next
  assume single: "\<not> auto_paginate args"
  from assms have "fetch InitialCall = Inr (hd pages)"
    by (cases pages) simp_all
  then have "rest_list False fetch = Some ([InitialCall], Inr (rest_data (hd pages)))"
    by (simp add: rest_list_def)
  with single show "listIncidents fetch args =
              Some ([InitialCall], Inr (filter (keeps_incident args) (rest_data (hd pages))))"
    by (simp add: listIncidents_def incident_filters)
qed

text \<open>
  The incidents test: two pages, one open incident of priority \<^verbatim>\<open>HIGH\<close>. A priority that
  differs in letter case keeps nothing.
\<close>

theorem listIncidents_filters_whole_result_witness:
  "page_chain incident_fetch InitialCall incident_pages
   \<and> auto_paginate open_high_args
   \<and> map_option (map_prod length (map_sum id (map incident_id)))
        (listIncidents incident_fetch open_high_args) = Some (2, Inr [1])
   \<and> map_option (map_prod length (map_sum id (map incident_id)))
        (listIncidents incident_fetch (open_high_args\<lparr>auto_paginate := False, priority := Some ''high''\<rparr>))
       = Some (1, Inr [])"
proof -
  have chain: "page_chain incident_fetch InitialCall incident_pages"
    by (simp add: incident_fetch_def incident_pages_def)
  have auto: "auto_paginate open_high_args"
    by (simp add: open_high_args_def)
  have kept: "filter (keeps_incident open_high_args) (concat (map rest_data incident_pages))
      = [\<lparr> incident_id = 1, incident_priority = Some ''HIGH'', closed_at = Some 0 \<rparr>]"
    by (simp add: incident_pages_def keeps_incident_def open_high_args_def)
  have kept': "filter (keeps_incident (open_high_args\<lparr>auto_paginate := False, priority := Some ''high''\<rparr>))
        (rest_data (hd incident_pages)) = []"
    by (simp add: incident_pages_def keeps_incident_def open_high_args_def)
  have calls: "length (next_calls incident_pages) = 1"
    by (simp add: incident_pages_def)
  show ?thesis
    using chain auto
      listIncidents_filters_whole_result [OF chain, of open_high_args]
      listIncidents_filters_whole_result [OF chain,
        of "open_high_args\<lparr>auto_paginate := False, priority := Some ''high''\<rparr>"]
    by (simp add: kept kept' calls)
qed

text \<open>
  Claim C4. Deleting a deployment without \<^verbatim>\<open>confirm = true\<close> fails with a
  \<^verbatim>\<open>PreconditionError\<close> and gives nothing to the REST client; with \<^verbatim>\<open>confirm = true\<close> there
  is exactly one \<^verbatim>\<open>delete\<close> call, on the path of that deployment.
\<close>

theorem delete_requires_confirm:
  "(confirm a \<noteq> Some True \<longrightarrow> delete_deployment del a = ([], Inl PreconditionError))
   \<and> (confirm a = Some True \<longrightarrow>
        delete_deployment del a = ([deployment_path a], del (deployment_path a))
        \<and> deployment_path a =
            ''/applications/'' @ show_nat (application_id a) @ ''/deployments/''
              @ show_nat (deployment_id a))"
  by (simp add: delete_deployment_def deployment_path_def)

text \<open>
  The deployment of the test, with \<^verbatim>\<open>confirm\<close> absent, false and true.
\<close>

theorem delete_requires_confirm_witness:
  "delete_deployment ok_delete \<lparr> application_id = 1, deployment_id = 2, confirm = None \<rparr>
     = ([], Inl PreconditionError)
   \<and> delete_deployment ok_delete \<lparr> application_id = 1, deployment_id = 2, confirm = Some False \<rparr>
     = ([], Inl PreconditionError)
   \<and> fst (delete_deployment ok_delete \<lparr> application_id = 1, deployment_id = 2, confirm = Some True \<rparr>)
     = [''/applications/1/deployments/2'']"
  using delete_requires_confirm [of "\<lparr> application_id = 1, deployment_id = 2, confirm = None \<rparr>" ok_delete]
    delete_requires_confirm [of "\<lparr> application_id = 1, deployment_id = 2, confirm = Some False \<rparr>" ok_delete]
    delete_requires_confirm [of "\<lparr> application_id = 1, deployment_id = 2, confirm = Some True \<rparr>" ok_delete]
  by (simp add: show_nat.simps digit_char_def)

end
